theory Spec2Isabelle
  imports Main "HOL-Library.Multiset" "HOL-Library.Char_ord" "HOL-Library.List_Lexorder"
begin

section \<open>Values: parsed JSON, Python exceptions, HTTP responses\<close>

text \<open>
  What \<^verbatim>\<open>request.get_json()\<close> hands to a view and what \<^verbatim>\<open>jsonify\<close> takes from it.
  A parsed object is a Python dict; it is kept as an association list that is only ever
  read with \<open>map_of\<close>. JSON \<^verbatim>\<open>null\<close> is Python's \<^verbatim>\<open>None\<close>, \<^verbatim>\<open>true\<close>/\<^verbatim>\<open>false\<close> are
  Python's \<^verbatim>\<open>True\<close>/\<^verbatim>\<open>False\<close>. A float \<open>JFloat m e\<close> stands for \<open>m * 2^e\<close>; no view
  ever reads the value of a float, only that it is one.
\<close>

datatype json =
    JNull
  | JBool bool
  | JInt int
  | JFloat int int
  | JStr string
  | JList "json list"
  | JDict "(string \<times> json) list"

text \<open>
  The exceptions a view can end in: \<^verbatim>\<open>AttributeError\<close> and \<^verbatim>\<open>ValueError\<close> from the
  repository's own code, \<^verbatim>\<open>OverflowError\<close> from binding a Python int that does not fit
  SQLite's 64-bit INTEGER, \<^verbatim>\<open>OperationalError\<close> when the engine finds no free rowid, and
  \<^verbatim>\<open>DBAPIError\<close> for whatever else the storage layer raises.
\<close>

datatype exn =
    AttributeError
  | ValueError string
  | OverflowError
  | OperationalError
  | DBAPIError

datatype response = Response (status: int) (body: json)

text \<open>\<^verbatim>\<open>d.get(k)\<close> on a dict: the value, or \<^verbatim>\<open>None\<close> when the key is absent.\<close>

definition dict_get :: "(string \<times> json) list \<Rightarrow> string \<Rightarrow> json" where
  "dict_get d k = (case map_of d k of None \<Rightarrow> JNull | Some v \<Rightarrow> v)"

text \<open>
  \<^verbatim>\<open>data.get(k)\<close> on whatever the body parsed to: only a dict has a \<^verbatim>\<open>get\<close> attribute,
  on \<^verbatim>\<open>None\<close>, a list, a string or a number the attribute access raises.
\<close>

fun py_get :: "json \<Rightarrow> string \<Rightarrow> exn + json" where
  "py_get (JDict d) k = Inr (dict_get d k)"
| "py_get _ k = Inl AttributeError"

text \<open>
  \<^verbatim>\<open>isinstance(v, int)\<close>. In Python \<^verbatim>\<open>bool\<close> is a subclass of \<^verbatim>\<open>int\<close>, so \<^verbatim>\<open>True\<close> and
  \<^verbatim>\<open>False\<close> pass the test, and compare as \<open>1\<close> and \<open>0\<close>.
\<close>

fun isinstance_int :: "json \<Rightarrow> bool" where
  "isinstance_int (JInt i) = True"
| "isinstance_int (JBool b) = True"
| "isinstance_int _ = False"

text \<open>The integer a Python int denotes; read only where \<open>isinstance_int\<close> holds.\<close>

fun int_value :: "json \<Rightarrow> int" where
  "int_value (JInt i) = i"
| "int_value (JBool b) = (if b then 1 else 0)"

text \<open>Reading a key of a serialized object (for stating what a response contains).\<close>

fun json_key :: "json \<Rightarrow> string \<Rightarrow> json option" where
  "json_key (JDict d) k = map_of d k"
| "json_key _ k = None"

section \<open>The schema (models.py)\<close>

record episode =
  Episode_id :: int
  Episode_date :: string
  Episode_number :: int

record guest =
  Guest_id :: int
  Guest_name :: string
  Guest_occupation :: string

record appearance =
  Appearance_id :: int
  Appearance_rating :: int
  Appearance_guest_id :: int
  Appearance_episode_id :: int

text \<open>
  The three tables, each in the order the engine scans it: by rowid, which is the primary
  key.
\<close>

record store =
  episodes :: "episode list"
  guests :: "guest list"
  appearances :: "appearance list"

subsection \<open>The storage engine\<close>

text \<open>
  The configured engine is SQLite. Its INTEGER is a signed 64-bit integer: binding a
  Python int outside that range raises \<^verbatim>\<open>OverflowError\<close>, in a query as in an INSERT.
\<close>

definition int64 :: "int \<Rightarrow> bool" where
  "int64 k = (- 9223372036854775808 \<le> k \<and> k \<le> 9223372036854775807)"

definition bind_int :: "int \<Rightarrow> exn + int" where
  "bind_int k = (if int64 k then Inr k else Inl OverflowError)"

text \<open>
  What SQLAlchemy and SQLite do with a value that is not a Python int is not in the
  repository; the views meet it where they pass a request's \<^verbatim>\<open>episode_id\<close> or
  \<^verbatim>\<open>guest_id\<close> on as it was parsed. It is a parameter of the model, in three parts:
  \<^item> \<open>get_ident v\<close>: how \<^verbatim>\<open>query.get(v)\<close> reads \<open>v\<close> as a primary key: it raises
    (\<open>Inl\<close>), matches no key (\<open>Inr None\<close>) or reads \<open>v\<close> as the key \<open>k\<close> (\<open>Inr (Some k)\<close>);
  \<^item> \<open>bind_param v\<close>: what an INSERT stores in an INTEGER column for \<open>v\<close>: it raises or
    stores an integer;
  \<^item> \<open>random_rowid ids\<close>: the rowid the engine's random search ends on when the table
    already holds the largest rowid, \<open>None\<close> when the search gives up.
\<close>

record engine =
  get_ident :: "json \<Rightarrow> exn + int option"
  bind_param :: "json \<Rightarrow> exn + int"
  random_rowid :: "int list \<Rightarrow> int option"

subsection \<open>Queries\<close>

text \<open>The row with a given primary key: what a relationship loads through a stored key.\<close>

definition Episode_row :: "store \<Rightarrow> int \<Rightarrow> episode option" where
  "Episode_row st k = find (\<lambda>e. Episode_id e = k) (episodes st)"

definition Guest_row :: "store \<Rightarrow> int \<Rightarrow> guest option" where
  "Guest_row st k = find (\<lambda>g. Guest_id g = k) (guests st)"

text \<open>
  \<^verbatim>\<open>Model.query.get(k)\<close> for a Python int, as \<^verbatim>\<open>get_episode\<close> calls it with the id of
  the URL: the key is bound first, then the row with that key is returned, or \<^verbatim>\<open>None\<close>.
\<close>

definition Episode_query_get :: "store \<Rightarrow> int \<Rightarrow> exn + episode option" where
  "Episode_query_get st k =
     (case bind_int k of Inl x \<Rightarrow> Inl x | Inr k' \<Rightarrow> Inr (Episode_row st k'))"

definition Guest_query_get :: "store \<Rightarrow> int \<Rightarrow> exn + guest option" where
  "Guest_query_get st k =
     (case bind_int k of Inl x \<Rightarrow> Inl x | Inr k' \<Rightarrow> Inr (Guest_row st k'))"

text \<open>
  \<^verbatim>\<open>Model.query.get(v)\<close> for any parsed value, as \<^verbatim>\<open>create_appearance\<close> calls it: a
  Python int (an int or a bool) is bound as the key it denotes, any other value is read
  by the engine.
\<close>

definition key_of :: "engine \<Rightarrow> json \<Rightarrow> exn + int option" where
  "key_of eng v =
     (if isinstance_int v
      then (case bind_int (int_value v) of Inl x \<Rightarrow> Inl x | Inr k \<Rightarrow> Inr (Some k))
      else get_ident eng v)"

definition query_get :: "engine \<Rightarrow> (int \<Rightarrow> 'r option) \<Rightarrow> json \<Rightarrow> exn + 'r option" where
  "query_get eng row v =
     (case key_of eng v of
        Inl x \<Rightarrow> Inl x
      | Inr None \<Rightarrow> Inr None
      | Inr (Some k) \<Rightarrow> Inr (row k))"

subsection \<open>Serialization\<close>

text \<open>
  Each \<^verbatim>\<open>to_dict\<close> starts from the dict of the row's own columns. \<^verbatim>\<open>Episode.to_dict\<close> and
  \<^verbatim>\<open>Guest.to_dict\<close> with \<^verbatim>\<open>include_appearances=False\<close> (the default, and the only way
  \<^verbatim>\<open>Appearance.to_dict\<close> calls them) return exactly that dict.
\<close>

definition Episode_columns :: "episode \<Rightarrow> (string \<times> json) list" where
  "Episode_columns e =
     [(''id'', JInt (Episode_id e)), (''date'', JStr (Episode_date e)),
      (''number'', JInt (Episode_number e))]"

definition Guest_columns :: "guest \<Rightarrow> (string \<times> json) list" where
  "Guest_columns g =
     [(''id'', JInt (Guest_id g)), (''name'', JStr (Guest_name g)),
      (''occupation'', JStr (Guest_occupation g))]"

definition Appearance_columns :: "appearance \<Rightarrow> (string \<times> json) list" where
  "Appearance_columns a =
     [(''id'', JInt (Appearance_id a)), (''rating'', JInt (Appearance_rating a)),
      (''guest_id'', JInt (Appearance_guest_id a)),
      (''episode_id'', JInt (Appearance_episode_id a))]"

text \<open>
  \<^verbatim>\<open>Appearance.to_dict(include_guest, include_episode)\<close>. \<^verbatim>\<open>self.guest\<close> and
  \<^verbatim>\<open>self.episode\<close> are loaded through the foreign keys; when the referenced row does not
  exist the relationship is \<^verbatim>\<open>None\<close> and \<^verbatim>\<open>.to_dict()\<close> on it raises.
\<close>

definition Appearance_to_dict :: "store \<Rightarrow> bool \<Rightarrow> bool \<Rightarrow> appearance \<Rightarrow> exn + json" where
  "Appearance_to_dict st include_guest include_episode a =
     (let result = Appearance_columns a in
      case (if include_guest
            then (case Guest_row st (Appearance_guest_id a) of
                    None \<Rightarrow> Inl AttributeError
                  | Some g \<Rightarrow> Inr (result @ [(''guest'', JDict (Guest_columns g))]))
            else Inr result) of
        Inl x \<Rightarrow> Inl x
      | Inr result \<Rightarrow>
          (if include_episode
           then (case Episode_row st (Appearance_episode_id a) of
                   None \<Rightarrow> Inl AttributeError
                 | Some e \<Rightarrow> Inr (JDict (result @ [(''episode'', JDict (Episode_columns e))])))
           else Inr (JDict result)))"

text \<open>A list comprehension whose body may raise: the first exception ends it.\<close>

fun map_exn :: "('a \<Rightarrow> exn + 'b) \<Rightarrow> 'a list \<Rightarrow> exn + 'b list" where
  "map_exn f [] = Inr []"
| "map_exn f (x # xs) =
     (case f x of
        Inl e \<Rightarrow> Inl e
      | Inr y \<Rightarrow> (case map_exn f xs of Inl e \<Rightarrow> Inl e | Inr ys \<Rightarrow> Inr (y # ys)))"

text \<open>\<^verbatim>\<open>self.appearances.all()\<close> of an episode, of a guest.\<close>

definition Episode_appearances :: "store \<Rightarrow> episode \<Rightarrow> appearance list" where
  "Episode_appearances st e =
     filter (\<lambda>a. Appearance_episode_id a = Episode_id e) (appearances st)"

definition Guest_appearances :: "store \<Rightarrow> guest \<Rightarrow> appearance list" where
  "Guest_appearances st g =
     filter (\<lambda>a. Appearance_guest_id a = Guest_id g) (appearances st)"

definition Episode_to_dict :: "store \<Rightarrow> bool \<Rightarrow> episode \<Rightarrow> exn + json" where
  "Episode_to_dict st include_appearances e =
     (let result = Episode_columns e in
      if include_appearances
      then (case map_exn (Appearance_to_dict st True False) (Episode_appearances st e) of
              Inl x \<Rightarrow> Inl x
            | Inr l \<Rightarrow> Inr (JDict (result @ [(''appearances'', JList l)])))
      else Inr (JDict result))"

definition Guest_to_dict :: "store \<Rightarrow> bool \<Rightarrow> guest \<Rightarrow> exn + json" where
  "Guest_to_dict st include_appearances g =
     (let result = Guest_columns g in
      if include_appearances
      then (case map_exn (Appearance_to_dict st False True) (Guest_appearances st g) of
              Inl x \<Rightarrow> Inl x
            | Inr l \<Rightarrow> Inr (JDict (result @ [(''appearances'', JList l)])))
      else Inr (JDict result))"

subsection \<open>Creating a row\<close>

text \<open>
  \<^verbatim>\<open>validate_rating\<close> runs when the \<^verbatim>\<open>rating\<close> attribute is assigned, so inside the
  constructor \<^verbatim>\<open>Appearance(rating=..., ...)\<close>, before the session sees the object.
\<close>

definition validate_rating :: "int \<Rightarrow> exn + int" where
  "validate_rating rating =
     (if rating < 1 \<or> rating > 5
      then Inl (ValueError ''Rating must be between 1 and 5 (inclusive)'')
      else Inr rating)"

text \<open>
  The object the constructor builds: the validated rating, and the two keys exactly as
  they were passed (no validator is attached to them). It has no primary key yet.
\<close>

record new_appearance =
  new_rating :: int
  new_guest_id :: json
  new_episode_id :: json

definition Appearance :: "int \<Rightarrow> json \<Rightarrow> json \<Rightarrow> exn + new_appearance" where
  "Appearance rating guest_id episode_id =
     (case validate_rating rating of
        Inl x \<Rightarrow> Inl x
      | Inr r \<Rightarrow> Inr \<lparr>new_rating = r, new_guest_id = guest_id, new_episode_id = episode_id\<rparr>)"

text \<open>
  The value an INSERT stores in an INTEGER column: a Python int is bound as it is, any
  other value as the engine has it.
\<close>

definition bind_column :: "engine \<Rightarrow> json \<Rightarrow> exn + int" where
  "bind_column eng v = (if isinstance_int v then bind_int (int_value v) else bind_param eng v)"

text \<open>
  The rowid SQLite gives a row inserted without one: 1 in an empty table, otherwise one
  more than the largest rowid in use; when that is already the largest 64-bit integer, a
  positive rowid found at random that is not in use, and the INSERT fails when none is
  found.
\<close>

definition next_rowid :: "engine \<Rightarrow> int list \<Rightarrow> exn + int" where
  "next_rowid eng ids =
     (case ids of
        [] \<Rightarrow> Inr 1
      | i # rest \<Rightarrow>
          (let largest = fold max rest i in
           if largest < 9223372036854775807 then Inr (largest + 1)
           else (case random_rowid eng ids of
                   None \<Rightarrow> Inl OperationalError
                 | Some c \<Rightarrow>
                     if 0 < c \<and> int64 c \<and> c \<notin> set ids then Inr c
                     else Inl OperationalError)))"

text \<open>
  \<^verbatim>\<open>db.session.add(a); db.session.commit()\<close>: the INSERT binds the three columns in
  table order, the engine assigns the rowid and puts the row at its place in rowid order
  (the end of the table, unless the rowid was found at random), and the object is
  refreshed from the row. A failed INSERT writes nothing.
\<close>

definition session_add_commit :: "engine \<Rightarrow> store \<Rightarrow> new_appearance \<Rightarrow> exn + appearance \<times> store" where
  "session_add_commit eng st a =
     (case bind_int (new_rating a) of Inl x \<Rightarrow> Inl x | Inr r \<Rightarrow>
     (case bind_column eng (new_guest_id a) of Inl x \<Rightarrow> Inl x | Inr g \<Rightarrow>
     (case bind_column eng (new_episode_id a) of Inl x \<Rightarrow> Inl x | Inr e \<Rightarrow>
     (case next_rowid eng (map Appearance_id (appearances st)) of Inl x \<Rightarrow> Inl x | Inr i \<Rightarrow>
        (let a' = \<lparr>Appearance_id = i, Appearance_rating = r,
                   Appearance_guest_id = g, Appearance_episode_id = e\<rparr>
         in Inr (a', st\<lparr>appearances := insort_key Appearance_id a' (appearances st)\<rparr>))))))"

section \<open>The views (routes.py)\<close>

text \<open>
  A view takes the store and returns what it answers (a response, or the exception it
  raises) together with the store it leaves.
\<close>

type_synonym outcome = "(exn + response) \<times> store"

definition get_episodes :: "store \<Rightarrow> outcome" where
  "get_episodes st =
     (let episodes' = sort_key Episode_number (episodes st) in
      case map_exn (Episode_to_dict st False) episodes' of
        Inl x \<Rightarrow> (Inl x, st)
      | Inr episodes_list \<Rightarrow> (Inr (Response 200 (JList episodes_list)), st))"

definition get_episode :: "store \<Rightarrow> int \<Rightarrow> outcome" where
  "get_episode st episode_id =
     (case Episode_query_get st episode_id of
        Inl x \<Rightarrow> (Inl x, st)
      | Inr None \<Rightarrow> (Inr (Response 404 (JDict [(''error'', JStr ''Episode not found'')])), st)
      | Inr (Some episode) \<Rightarrow>
          (case Episode_to_dict st True episode of
             Inl x \<Rightarrow> (Inl x, st)
           | Inr episode_data \<Rightarrow> (Inr (Response 200 episode_data), st)))"

definition get_guests :: "store \<Rightarrow> outcome" where
  "get_guests st =
     (let guests' = sort_key Guest_name (guests st) in
      case map_exn (Guest_to_dict st False) guests' of
        Inl x \<Rightarrow> (Inl x, st)
      | Inr guests_list \<Rightarrow> (Inr (Response 200 (JList guests_list)), st))"

text \<open>The three validation blocks of \<^verbatim>\<open>create_appearance\<close>, each the messages it appends.\<close>

definition rating_errors :: "json \<Rightarrow> string list" where
  "rating_errors rating =
     (if rating = JNull then [''Rating is required'']
      else if \<not> isinstance_int rating then [''Rating must be an integer'']
      else if int_value rating < 1 \<or> int_value rating > 5
        then [''Rating must be between 1 and 5 (inclusive)'']
      else [])"

definition episode_errors :: "json \<Rightarrow> episode option \<Rightarrow> string list" where
  "episode_errors episode_id episode =
     (if episode_id = JNull then [''Episode ID is required'']
      else if episode = None then [''Episode not found'']
      else [])"

definition guest_errors :: "json \<Rightarrow> guest option \<Rightarrow> string list" where
  "guest_errors guest_id guest =
     (if guest_id = JNull then [''Guest ID is required'']
      else if guest = None then [''Guest not found'']
      else [])"

text \<open>
  \<^verbatim>\<open>create_appearance\<close>. The lookups run only for an id that is not \<^verbatim>\<open>None\<close>. The
  constructor gets the request's own \<^verbatim>\<open>guest_id\<close> and \<^verbatim>\<open>episode_id\<close>.
\<close>

definition create_appearance :: "engine \<Rightarrow> store \<Rightarrow> json \<Rightarrow> outcome" where
  "create_appearance eng st data =
     (case py_get data ''rating'' of Inl x \<Rightarrow> (Inl x, st) | Inr rating \<Rightarrow>
     (case py_get data ''episode_id'' of Inl x \<Rightarrow> (Inl x, st) | Inr episode_id \<Rightarrow>
     (case py_get data ''guest_id'' of Inl x \<Rightarrow> (Inl x, st) | Inr guest_id \<Rightarrow>
     (case (if episode_id = JNull then Inr None
            else query_get eng (Episode_row st) episode_id) of
        Inl x \<Rightarrow> (Inl x, st) | Inr episode \<Rightarrow>
     (case (if guest_id = JNull then Inr None
            else query_get eng (Guest_row st) guest_id) of
        Inl x \<Rightarrow> (Inl x, st) | Inr guest \<Rightarrow>
     (let errors = rating_errors rating @ episode_errors episode_id episode
                     @ guest_errors guest_id guest in
      if errors \<noteq> [] then
        (Inr (Response 400 (JDict [(''errors'', JList (map JStr errors))])), st)
      else
        (case Appearance (int_value rating) guest_id episode_id of
           Inl x \<Rightarrow> (Inl x, st)
         | Inr appearance \<Rightarrow>
             (case session_add_commit eng st appearance of
                Inl x \<Rightarrow> (Inl x, st)
              | Inr (appearance', st') \<Rightarrow>
                  (case Appearance_to_dict st' True True appearance' of
                     Inl x \<Rightarrow> (Inl x, st')
                   | Inr d \<Rightarrow> (Inr (Response 201 d), st'))))))))))"

text \<open>
  The two error handlers, both registered on the blueprint (\<^verbatim>\<open>@api.errorhandler\<close>).
  \<^verbatim>\<open>internal_error\<close> rolls the session back first; no view above raises between an
  \<^verbatim>\<open>add\<close> and the end of its \<^verbatim>\<open>commit\<close>, so there is never a pending change and the
  store stays as it is. For which requests Flask calls a blueprint's handlers is Flask's
  code, not the repository's, and is not part of this development.
\<close>

definition not_found :: "store \<Rightarrow> response \<times> store" where
  "not_found st = (Response 404 (JDict [(''error'', JStr ''Resource not found'')]), st)"

definition internal_error :: "store \<Rightarrow> response \<times> store" where
  "internal_error st = (Response 500 (JDict [(''error'', JStr ''Internal server error'')]), st)"

section \<open>What the specification asks of a creation request\<close>

text \<open>
  The specification's list of violations (its section 4.1, step 1), written from its own
  words and independent of the view: a field of the request (none when the body has no
  such field), what counts as an integer (a JSON integer), whether an id names a row, and
  \<open>spec_errors\<close>, the message of every violation that applies, in the order the
  specification gives them. An integer id names the row that has it as its id (a boolean
  counting as 1 or 0, as it does wherever Python compares it); any other value names the
  row the engine reads it as, if any.
\<close>

fun request_field :: "json \<Rightarrow> string \<Rightarrow> json" where
  "request_field (JDict d) k = dict_get d k"
| "request_field _ k = JNull"

fun json_integer :: "json \<Rightarrow> bool" where
  "json_integer (JInt i) = True"
| "json_integer _ = False"

fun json_boolean :: "json \<Rightarrow> bool" where
  "json_boolean (JBool b) = True"
| "json_boolean _ = False"

definition names_row :: "engine \<Rightarrow> int list \<Rightarrow> json \<Rightarrow> bool" where
  "names_row eng ids v =
     (if isinstance_int v then int_value v \<in> set ids
      else (case get_ident eng v of
              Inl x \<Rightarrow> False
            | Inr None \<Rightarrow> False
            | Inr (Some k) \<Rightarrow> k \<in> set ids))"

definition spec_errors :: "engine \<Rightarrow> store \<Rightarrow> json \<Rightarrow> string list" where
  "spec_errors eng st data =
     (let rating = request_field data ''rating'';
          episode_id = request_field data ''episode_id'';
          guest_id = request_field data ''guest_id''
      in (if rating = JNull then [''Rating is required''] else [])
       @ (if rating \<noteq> JNull \<and> \<not> json_integer rating
          then [''Rating must be an integer''] else [])
       @ (if json_integer rating \<and> (int_value rating < 1 \<or> 5 < int_value rating)
          then [''Rating must be between 1 and 5 (inclusive)''] else [])
       @ (if episode_id = JNull then [''Episode ID is required''] else [])
       @ (if episode_id \<noteq> JNull \<and> \<not> names_row eng (map Episode_id (episodes st)) episode_id
          then [''Episode not found''] else [])
       @ (if guest_id = JNull then [''Guest ID is required''] else [])
       @ (if guest_id \<noteq> JNull \<and> \<not> names_row eng (map Guest_id (guests st)) guest_id
          then [''Guest not found''] else []))"

text \<open>
  An id field on which the view's lookup does not fault: it is absent or \<^verbatim>\<open>null\<close> (no
  lookup runs), or an integer or boolean within the signed 64-bit range, or another value
  that the engine reads without raising.
\<close>

definition lookup_returns :: "engine \<Rightarrow> json \<Rightarrow> bool" where
  "lookup_returns eng v =
     (v = JNull \<or> (case key_of eng v of Inl x \<Rightarrow> False | Inr k \<Rightarrow> True))"

section \<open>Invariants of the store\<close>

text \<open>Every stored rating lies between 1 and 5.\<close>

definition ratings_in_range :: "store \<Rightarrow> bool" where
  "ratings_in_range st =
     list_all (\<lambda>a. 1 \<le> Appearance_rating a \<and> Appearance_rating a \<le> 5) (appearances st)"

section \<open>Auxiliary terms of the proofs\<close>

text \<open>What a lookup of \<^verbatim>\<open>create_appearance\<close> returns for an id on which it does not fault.\<close>

definition found :: "engine \<Rightarrow> (int \<Rightarrow> 'r option) \<Rightarrow> json \<Rightarrow> 'r option" where
  "found eng row v =
     (if v = JNull then None
      else (case key_of eng v of
              Inl x \<Rightarrow> None
            | Inr None \<Rightarrow> None
            | Inr (Some k) \<Rightarrow> row k))"

text \<open>Lines 203 to 217 of \<^verbatim>\<open>create_appearance\<close>: what it does once no error was collected.\<close>

definition persist :: "engine \<Rightarrow> store \<Rightarrow> json \<Rightarrow> json \<Rightarrow> json \<Rightarrow> outcome" where
  "persist eng st rating guest_id episode_id =
     (case Appearance (int_value rating) guest_id episode_id of
        Inl x \<Rightarrow> (Inl x, st)
      | Inr appearance \<Rightarrow>
          (case session_add_commit eng st appearance of
             Inl x \<Rightarrow> (Inl x, st)
           | Inr (appearance', st') \<Rightarrow>
               (case Appearance_to_dict st' True True appearance' of
                  Inl x \<Rightarrow> (Inl x, st')
                | Inr d \<Rightarrow> (Inr (Response 201 d), st'))))"

text \<open>An entry of an episode's \<^verbatim>\<open>appearances\<close> array, for an appearance whose guest exists.\<close>

definition nested_guest :: "store \<Rightarrow> appearance \<Rightarrow> json" where
  "nested_guest st a =
     JDict (Appearance_columns a @
       [(''guest'', JDict (Guest_columns (the (Guest_row st (Appearance_guest_id a)))))])"

section \<open>Small stores and an engine, for concrete runs\<close>

text \<open>
  Two episodes inserted out of their \<^verbatim>\<open>number\<close> order, three guests inserted out of
  their \<^verbatim>\<open>name\<close> order, three appearances; the same store with one more appearance, on
  episode 1, whose guest row does not exist; an engine that refuses every value that is
  not a Python int, and one that reads such a value as the key of no row; neither finds
  a random rowid.
\<close>

definition demo_store :: store where
  "demo_store =
     \<lparr>episodes =
        [\<lparr>Episode_id = 1, Episode_date = ''1/12/99'', Episode_number = 2\<rparr>,
         \<lparr>Episode_id = 2, Episode_date = ''1/11/99'', Episode_number = 1\<rparr>],
      guests =
        [\<lparr>Guest_id = 1, Guest_name = ''Michael J. Fox'', Guest_occupation = ''actor''\<rparr>,
         \<lparr>Guest_id = 2, Guest_name = ''Sandra Bernhard'', Guest_occupation = ''Comedian''\<rparr>,
         \<lparr>Guest_id = 3, Guest_name = ''Bradley Whitford'', Guest_occupation = ''actor''\<rparr>],
      appearances =
        [\<lparr>Appearance_id = 1, Appearance_rating = 4,
           Appearance_guest_id = 1, Appearance_episode_id = 1\<rparr>,
         \<lparr>Appearance_id = 2, Appearance_rating = 5,
           Appearance_guest_id = 2, Appearance_episode_id = 1\<rparr>,
         \<lparr>Appearance_id = 3, Appearance_rating = 3,
           Appearance_guest_id = 3, Appearance_episode_id = 2\<rparr>]\<rparr>"

definition dangling_store :: store where
  "dangling_store =
     demo_store\<lparr>appearances := appearances demo_store @
       [\<lparr>Appearance_id = 4, Appearance_rating = 5,
         Appearance_guest_id = 9, Appearance_episode_id = 1\<rparr>]\<rparr>"

definition lenient_engine :: engine where
  "lenient_engine =
     \<lparr>get_ident = (\<lambda>v. Inr None), bind_param = (\<lambda>v. Inl DBAPIError),
      random_rowid = (\<lambda>ids. None)\<rparr>"

definition strict_engine :: engine where
  "strict_engine =
     \<lparr>get_ident = (\<lambda>v. Inl DBAPIError), bind_param = (\<lambda>v. Inl DBAPIError),
      random_rowid = (\<lambda>ids. None)\<rparr>"

section \<open>Lemmas about queries and serialization\<close>

lemma map_exn_Inr:
  "(\<And>x. x \<in> set xs \<Longrightarrow> f x = Inr (g x)) \<Longrightarrow> map_exn f xs = Inr (map g xs)"
  by (induction xs) auto

lemma Episode_to_dict_False: "Episode_to_dict st False e = Inr (JDict (Episode_columns e))"
  by (simp add: Episode_to_dict_def)

lemma Guest_to_dict_False: "Guest_to_dict st False g = Inr (JDict (Guest_columns g))"
  by (simp add: Guest_to_dict_def)

lemma Episode_row_Some:
  "Episode_row st k = Some e \<Longrightarrow> Episode_id e = k \<and> e \<in> set (episodes st)"
  by (auto simp: Episode_row_def find_Some_iff)

lemma Guest_row_Some:
  "Guest_row st k = Some g \<Longrightarrow> Guest_id g = k \<and> g \<in> set (guests st)"
  by (auto simp: Guest_row_def find_Some_iff)

lemma Episode_row_None:
  "Episode_row st k = None \<longleftrightarrow> k \<notin> set (map Episode_id (episodes st))"
  by (auto simp: Episode_row_def find_None_iff)

lemma Guest_row_None:
  "Guest_row st k = None \<longleftrightarrow> k \<notin> set (map Guest_id (guests st))"
  by (auto simp: Guest_row_def find_None_iff)

lemma Guest_row_appearances [simp]:
  "Guest_row (st\<lparr>appearances := xs\<rparr>) k = Guest_row st k"
  by (simp add: Guest_row_def)

lemma Episode_row_appearances [simp]:
  "Episode_row (st\<lparr>appearances := xs\<rparr>) k = Episode_row st k"
  by (simp add: Episode_row_def)

lemma Episode_query_get_int64:
  "int64 k \<Longrightarrow> Episode_query_get st k = Inr (Episode_row st k)"
  by (simp add: Episode_query_get_def bind_int_def)

lemma Episode_query_get_overflow:
  "\<not> int64 k \<Longrightarrow> Episode_query_get st k = Inl OverflowError"
  by (simp add: Episode_query_get_def bind_int_def)

lemma Appearance_to_dict_guest_only:
  "Guest_row st (Appearance_guest_id a) = Some g \<Longrightarrow>
   Appearance_to_dict st True False a =
     Inr (JDict (Appearance_columns a @ [(''guest'', JDict (Guest_columns g))]))"
  by (simp add: Appearance_to_dict_def)

lemma Episode_to_dict_True:
  assumes "list_all (\<lambda>a. Guest_row st (Appearance_guest_id a) \<noteq> None) (Episode_appearances st e)"
  shows "Episode_to_dict st True e =
     Inr (JDict (Episode_columns e @
       [(''appearances'', JList (map (nested_guest st) (Episode_appearances st e)))]))"
proof -
  have "map_exn (Appearance_to_dict st True False) (Episode_appearances st e)
          = Inr (map (nested_guest st) (Episode_appearances st e))"
  proof (rule map_exn_Inr)
    fix a assume "a \<in> set (Episode_appearances st e)"
    with assms obtain g where "Guest_row st (Appearance_guest_id a) = Some g"
      by (auto simp: list_all_iff)
    then show "Appearance_to_dict st True False a = Inr (nested_guest st a)"
      by (simp add: Appearance_to_dict_guest_only nested_guest_def)
  qed
  then show ?thesis
    by (simp add: Episode_to_dict_def)
qed

section \<open>The list views\<close>

lemma get_episodes_eq:
  "get_episodes st =
     (Inr (Response 200 (JList (map (\<lambda>e. JDict (Episode_columns e))
        (sort_key Episode_number (episodes st))))), st)"
  by (simp add: get_episodes_def Episode_to_dict_False
      map_exn_Inr [where g = "\<lambda>e. JDict (Episode_columns e)"])

lemma get_guests_eq:
  "get_guests st =
     (Inr (Response 200 (JList (map (\<lambda>g. JDict (Guest_columns g))
        (sort_key Guest_name (guests st))))), st)"
  by (simp add: get_guests_def Guest_to_dict_False
      map_exn_Inr [where g = "\<lambda>g. JDict (Guest_columns g)"])

text \<open>
  C5. For every store, \<^verbatim>\<open>GET /episodes\<close> answers 200 with an array that lists the
  episode rows, every row exactly once (the listed rows are a permutation of the table),
  in ascending \<^verbatim>\<open>number\<close> whatever the insertion order, each as the three-key object
  \<^verbatim>\<open>{id, date, number}\<close> with no \<^verbatim>\<open>appearances\<close> key.
\<close>

theorem get_episodes_sorted_shallow:
  "\<exists>rows.
     get_episodes st =
       (Inr (Response 200
          (JList (map (\<lambda>e. JDict [(''id'', JInt (Episode_id e)),
                                   (''date'', JStr (Episode_date e)),
                                   (''number'', JInt (Episode_number e))]) rows))), st)
     \<and> mset rows = mset (episodes st)
     \<and> sorted (map Episode_number rows)"
  by (rule exI [where x = "sort_key Episode_number (episodes st)"])
     (simp add: get_episodes_eq Episode_columns_def)

text \<open>
  C6. For every store, \<^verbatim>\<open>GET /guests\<close> answers 200 with an array that lists the guest
  rows, every row exactly once, in ascending \<^verbatim>\<open>name\<close> (strings compared character by
  character on their codes, the engine's default collation), each as the three-key object
  \<^verbatim>\<open>{id, name, occupation}\<close> with no \<^verbatim>\<open>appearances\<close> key.
\<close>

theorem get_guests_sorted_shallow:
  "\<exists>rows.
     get_guests st =
       (Inr (Response 200
          (JList (map (\<lambda>g. JDict [(''id'', JInt (Guest_id g)),
                                   (''name'', JStr (Guest_name g)),
                                   (''occupation'', JStr (Guest_occupation g))]) rows))), st)
     \<and> mset rows = mset (guests st)
     \<and> sorted (map Guest_name rows)"
  by (rule exI [where x = "sort_key Guest_name (guests st)"])
     (simp add: get_guests_eq Guest_columns_def)

lemma get_episodes_demo:
  "fst (get_episodes demo_store) =
     Inr (Response 200 (JList
       [JDict [(''id'', JInt 2), (''date'', JStr ''1/11/99''), (''number'', JInt 1)],
        JDict [(''id'', JInt 1), (''date'', JStr ''1/12/99''), (''number'', JInt 2)]]))"
  by (simp add: get_episodes_eq Episode_columns_def demo_store_def)

lemma get_guests_demo:
  "fst (get_guests demo_store) =
     Inr (Response 200 (JList
       [JDict [(''id'', JInt 3), (''name'', JStr ''Bradley Whitford''),
               (''occupation'', JStr ''actor'')],
        JDict [(''id'', JInt 1), (''name'', JStr ''Michael J. Fox''),
               (''occupation'', JStr ''actor'')],
        JDict [(''id'', JInt 2), (''name'', JStr ''Sandra Bernhard''),
               (''occupation'', JStr ''Comedian'')]]))"
  by (simp add: get_guests_eq Guest_columns_def demo_store_def less_eq_char_def
      less_char_def list_le_def)

section \<open>One episode with its appearances\<close>

text \<open>
  C4, as the view has it. For every id within the signed 64-bit range: when no episode
  row has that id, \<^verbatim>\<open>GET /episodes/{id}\<close> answers 404 with
  \<^verbatim>\<open>{"error": "Episode not found"}\<close>. When a row \<open>e\<close> has it and every appearance row
  referencing the episode references an existing guest, the view answers 200 with the
  episode's columns and an \<^verbatim>\<open>appearances\<close> array that has one entry per appearance row
  referencing the episode, in table order; each entry carries the appearance's columns
  and its guest nested as \<^verbatim>\<open>{id, name, occupation}\<close>, and has no \<^verbatim>\<open>episode\<close> key.
\<close>

theorem get_episode_found_or_404:
  "(int64 i \<and> Episode_row st i = None \<longrightarrow>
      get_episode st i =
        (Inr (Response 404 (JDict [(''error'', JStr ''Episode not found'')])), st))
   \<and> (int64 i \<and> Episode_row st i = Some e
       \<and> list_all (\<lambda>a. Guest_row st (Appearance_guest_id a) \<noteq> None)
            (filter (\<lambda>a. Appearance_episode_id a = i) (appearances st)) \<longrightarrow>
      (\<exists>entries.
         get_episode st i =
           (Inr (Response 200 (JDict [(''id'', JInt i), (''date'', JStr (Episode_date e)),
                                      (''number'', JInt (Episode_number e)),
                                      (''appearances'', JList entries)])), st)
         \<and> length entries
             = length (filter (\<lambda>a. Appearance_episode_id a = i) (appearances st))
         \<and> list_all2
              (\<lambda>a entry. \<exists>g. Guest_row st (Appearance_guest_id a) = Some g
                 \<and> entry = JDict [(''id'', JInt (Appearance_id a)),
                                  (''rating'', JInt (Appearance_rating a)),
                                  (''guest_id'', JInt (Appearance_guest_id a)),
                                  (''episode_id'', JInt i),
                                  (''guest'', JDict [(''id'', JInt (Guest_id g)),
                                                     (''name'', JStr (Guest_name g)),
                                                     (''occupation'', JStr (Guest_occupation g))])]
                 \<and> json_key entry ''episode'' = None)
              (filter (\<lambda>a. Appearance_episode_id a = i) (appearances st)) entries))"
proof (intro conjI impI)
  assume "int64 i \<and> Episode_row st i = None"
  then show "get_episode st i =
        (Inr (Response 404 (JDict [(''error'', JStr ''Episode not found'')])), st)"
    by (simp add: get_episode_def Episode_query_get_int64)
next
  let ?rows = "filter (\<lambda>a. Appearance_episode_id a = i) (appearances st)"
  assume a: "int64 i \<and> Episode_row st i = Some e
       \<and> list_all (\<lambda>a. Guest_row st (Appearance_guest_id a) \<noteq> None) ?rows"
  then have id: "Episode_id e = i"
    using Episode_row_Some [of st i e] by simp
  have rows: "Episode_appearances st e = ?rows"
    by (simp add: Episode_appearances_def id)
  have get: "get_episode st i =
      (Inr (Response 200 (JDict (Episode_columns e @
         [(''appearances'', JList (map (nested_guest st) ?rows))]))), st)"
    using a by (simp add: get_episode_def Episode_query_get_int64 Episode_to_dict_True rows)
  have each: "list_all2
      (\<lambda>a entry. \<exists>g. Guest_row st (Appearance_guest_id a) = Some g
         \<and> entry = JDict [(''id'', JInt (Appearance_id a)),
                          (''rating'', JInt (Appearance_rating a)),
                          (''guest_id'', JInt (Appearance_guest_id a)),
                          (''episode_id'', JInt i),
                          (''guest'', JDict [(''id'', JInt (Guest_id g)),
                                             (''name'', JStr (Guest_name g)),
                                             (''occupation'', JStr (Guest_occupation g))])]
         \<and> json_key entry ''episode'' = None)
      ?rows (map (nested_guest st) ?rows)"
    unfolding list_all2_map2
  proof (rule list_all2_same [THEN iffD2], rule ballI)
    fix r assume m: "r \<in> set ?rows"
    then have ep: "Appearance_episode_id r = i"
      by auto
    from a m obtain g where g: "Guest_row st (Appearance_guest_id r) = Some g"
      by (auto simp: list_all_iff)
    show "\<exists>g. Guest_row st (Appearance_guest_id r) = Some g
         \<and> nested_guest st r = JDict [(''id'', JInt (Appearance_id r)),
                          (''rating'', JInt (Appearance_rating r)),
                          (''guest_id'', JInt (Appearance_guest_id r)),
                          (''episode_id'', JInt i),
                          (''guest'', JDict [(''id'', JInt (Guest_id g)),
                                             (''name'', JStr (Guest_name g)),
                                             (''occupation'', JStr (Guest_occupation g))])]
         \<and> json_key (nested_guest st r) ''episode'' = None"
      using g ep
      by (simp add: nested_guest_def Appearance_columns_def Guest_columns_def)
  qed
  show "\<exists>entries.
         get_episode st i =
           (Inr (Response 200 (JDict [(''id'', JInt i), (''date'', JStr (Episode_date e)),
                                      (''number'', JInt (Episode_number e)),
                                      (''appearances'', JList entries)])), st)
         \<and> length entries = length ?rows
         \<and> list_all2
              (\<lambda>a entry. \<exists>g. Guest_row st (Appearance_guest_id a) = Some g
                 \<and> entry = JDict [(''id'', JInt (Appearance_id a)),
                                  (''rating'', JInt (Appearance_rating a)),
                                  (''guest_id'', JInt (Appearance_guest_id a)),
                                  (''episode_id'', JInt i),
                                  (''guest'', JDict [(''id'', JInt (Guest_id g)),
                                                     (''name'', JStr (Guest_name g)),
                                                     (''occupation'', JStr (Guest_occupation g))])]
                 \<and> json_key entry ''episode'' = None)
              ?rows entries"
    using get each id
    by (intro exI [where x = "map (nested_guest st) ?rows"]) (simp add: Episode_columns_def)
qed

text \<open>
  On the small store: id 7 names no episode; episode 1 has two appearances, listed with
  their guests.
\<close>

theorem get_episode_found_or_404_witness:
  "get_episode demo_store 7 =
     (Inr (Response 404 (JDict [(''error'', JStr ''Episode not found'')])), demo_store)
   \<and> (\<exists>entries.
        get_episode demo_store 1 =
          (Inr (Response 200 (JDict [(''id'', JInt 1), (''date'', JStr ''1/12/99''),
                                     (''number'', JInt 2),
                                     (''appearances'', JList entries)])), demo_store)
        \<and> length entries = 2)"
proof -
  have none: "int64 7 \<and> Episode_row demo_store 7 = None"
    by (simp add: int64_def Episode_row_def demo_store_def)
  have some: "int64 1
      \<and> Episode_row demo_store 1
          = Some \<lparr>Episode_id = 1, Episode_date = ''1/12/99'', Episode_number = 2\<rparr>
      \<and> list_all (\<lambda>a. Guest_row demo_store (Appearance_guest_id a) \<noteq> None)
            (filter (\<lambda>a. Appearance_episode_id a = 1) (appearances demo_store))"
    by (simp add: int64_def Episode_row_def Guest_row_def demo_store_def)
  have count: "length (filter (\<lambda>a. Appearance_episode_id a = 1) (appearances demo_store)) = 2"
    by (simp add: demo_store_def)
  from get_episode_found_or_404
         [of 7 demo_store "\<lparr>Episode_id = 1, Episode_date = ''1/12/99'', Episode_number = 2\<rparr>"]
       none
  have first: "get_episode demo_store 7 =
     (Inr (Response 404 (JDict [(''error'', JStr ''Episode not found'')])), demo_store)"
    by blast
  from get_episode_found_or_404
         [of 1 demo_store "\<lparr>Episode_id = 1, Episode_date = ''1/12/99'', Episode_number = 2\<rparr>"]
       some
  obtain entries where
    "get_episode demo_store 1 =
       (Inr (Response 200 (JDict [(''id'', JInt 1), (''date'', JStr ''1/12/99''),
                                  (''number'', JInt 2),
                                  (''appearances'', JList entries)])), demo_store)"
    and "length entries
           = length (filter (\<lambda>a. Appearance_episode_id a = 1) (appearances demo_store))"
    by auto
  with first count show ?thesis
    by auto
qed

text \<open>
  C4 as stated, for every id and every store, fails twice. The route's converter accepts
  9223372036854775808, which is the id of no episode, yet the lookup cannot bind it and
  the view ends in \<^verbatim>\<open>OverflowError\<close>, not in the 404. And where an appearance of the
  episode references a guest row that does not exist (the engine does not enforce the
  foreign key), episode 1 exists, yet the view ends in \<^verbatim>\<open>AttributeError\<close>, not in a 200.
\<close>

theorem get_episode_found_or_404_counterexample:
  "Episode_row demo_store 9223372036854775808 = None
   \<and> get_episode demo_store 9223372036854775808 = (Inl OverflowError, demo_store)
   \<and> Episode_row dangling_store 1
       = Some \<lparr>Episode_id = 1, Episode_date = ''1/12/99'', Episode_number = 2\<rparr>
   \<and> get_episode dangling_store 1 = (Inl AttributeError, dangling_store)"
proof -
  have "map_exn (Appearance_to_dict dangling_store True False)
          (Episode_appearances dangling_store
             \<lparr>Episode_id = 1, Episode_date = ''1/12/99'', Episode_number = 2\<rparr>)
        = Inl AttributeError"
    by (simp add: Episode_appearances_def Appearance_to_dict_def Guest_row_def
        dangling_store_def demo_store_def Let_def)
  then show ?thesis
    by (simp add: get_episode_def Episode_query_get_def bind_int_def int64_def
        Episode_row_def Episode_to_dict_def dangling_store_def demo_store_def)
qed

section \<open>The read views leave the store alone\<close>

lemma snd_get_episode: "snd (get_episode st episode_id) = st"
  by (simp add: get_episode_def split: option.splits sum.splits)

text \<open>
  C10. For every store and every id (found or not), the store that \<^verbatim>\<open>GET /episodes\<close>,
  \<^verbatim>\<open>GET /episodes/{id}\<close> and \<^verbatim>\<open>GET /guests\<close> leave is the store they were given: no
  episode, guest or appearance row changes.
\<close>

theorem read_views_frame:
  "snd (get_episodes st) = st
   \<and> snd (get_episode st episode_id) = st
   \<and> snd (get_guests st) = st"
  by (simp add: get_episodes_eq get_guests_eq snd_get_episode)

section \<open>A request body that is not an object\<close>

text \<open>
  C9. When the parsed body is \<^verbatim>\<open>None\<close>, \<^verbatim>\<open>create_appearance\<close> raises at its first field
  access, \<^verbatim>\<open>data.get('rating')\<close>: it answers with the exception (an unhandled fault), not
  with a 400 response, whatever the store holds, and leaves the store as it was.
\<close>

theorem create_appearance_None_body:
  "create_appearance eng st JNull = (Inl AttributeError, st)"
  by (simp add: create_appearance_def)

section \<open>Creating an appearance\<close>

subsection \<open>The view on an object body\<close>

lemma query_get_JInt_episode: "query_get eng (Episode_row st) (JInt k) = Episode_query_get st k"
  by (simp add: query_get_def key_of_def Episode_query_get_def split: sum.splits)

lemma query_get_JInt_guest: "query_get eng (Guest_row st) (JInt k) = Guest_query_get st k"
  by (simp add: query_get_def key_of_def Guest_query_get_def split: sum.splits)

lemma Episode_query_get_found:
  "Episode_query_get st k = Inr (Some e) \<Longrightarrow> int64 k \<and> Episode_row st k = Some e"
  by (auto simp: Episode_query_get_def bind_int_def split: if_splits)

lemma Guest_query_get_found:
  "Guest_query_get st k = Inr (Some g) \<Longrightarrow> int64 k \<and> Guest_row st k = Some g"
  by (auto simp: Guest_query_get_def bind_int_def split: if_splits)

lemma create_appearance_persist:
  "create_appearance eng st data =
     (case py_get data ''rating'' of Inl x \<Rightarrow> (Inl x, st) | Inr rating \<Rightarrow>
     (case py_get data ''episode_id'' of Inl x \<Rightarrow> (Inl x, st) | Inr episode_id \<Rightarrow>
     (case py_get data ''guest_id'' of Inl x \<Rightarrow> (Inl x, st) | Inr guest_id \<Rightarrow>
     (case (if episode_id = JNull then Inr None
            else query_get eng (Episode_row st) episode_id) of
        Inl x \<Rightarrow> (Inl x, st) | Inr episode \<Rightarrow>
     (case (if guest_id = JNull then Inr None
            else query_get eng (Guest_row st) guest_id) of
        Inl x \<Rightarrow> (Inl x, st) | Inr guest \<Rightarrow>
     (let errors = rating_errors rating @ episode_errors episode_id episode
                     @ guest_errors guest_id guest in
      if errors \<noteq> [] then
        (Inr (Response 400 (JDict [(''errors'', JList (map JStr errors))])), st)
      else persist eng st rating guest_id episode_id))))))"
  by (simp only: create_appearance_def persist_def)

lemma lookup_found:
  "lookup_returns eng v \<Longrightarrow>
   (if v = JNull then Inr None else query_get eng row v) = Inr (found eng row v)"
  by (auto simp: lookup_returns_def query_get_def found_def split: sum.splits option.splits)

lemma create_appearance_typed:
  assumes "lookup_returns eng (dict_get d ''episode_id'')"
    and "lookup_returns eng (dict_get d ''guest_id'')"
  shows "create_appearance eng st (JDict d) =
     (let rating = dict_get d ''rating'';
          episode_id = dict_get d ''episode_id'';
          guest_id = dict_get d ''guest_id'';
          errors = rating_errors rating
                     @ episode_errors episode_id (found eng (Episode_row st) episode_id)
                     @ guest_errors guest_id (found eng (Guest_row st) guest_id)
      in if errors \<noteq> [] then
           (Inr (Response 400 (JDict [(''errors'', JList (map JStr errors))])), st)
         else persist eng st rating guest_id episode_id)"
  unfolding create_appearance_persist
  by (simp only: py_get.simps sum.case lookup_found [OF assms(1)]
      lookup_found [OF assms(2)] Let_def)

subsection \<open>The collected messages are the applicable ones\<close>

lemma rating_errors_spec:
  "\<not> json_boolean v \<Longrightarrow>
   rating_errors v =
     (if v = JNull then [''Rating is required''] else [])
     @ (if v \<noteq> JNull \<and> \<not> json_integer v then [''Rating must be an integer''] else [])
     @ (if json_integer v \<and> (int_value v < 1 \<or> 5 < int_value v)
        then [''Rating must be between 1 and 5 (inclusive)''] else [])"
  by (cases v) (simp_all add: rating_errors_def)

lemma found_names_row_episode:
  assumes "lookup_returns eng v" and "v \<noteq> JNull"
  shows "found eng (Episode_row st) v = None
           \<longleftrightarrow> \<not> names_row eng (map Episode_id (episodes st)) v"
  using assms
  by (auto simp: lookup_returns_def found_def names_row_def key_of_def bind_int_def
      Episode_row_None split: sum.splits option.splits if_splits)

lemma found_names_row_guest:
  assumes "lookup_returns eng v" and "v \<noteq> JNull"
  shows "found eng (Guest_row st) v = None
           \<longleftrightarrow> \<not> names_row eng (map Guest_id (guests st)) v"
  using assms
  by (auto simp: lookup_returns_def found_def names_row_def key_of_def bind_int_def
      Guest_row_None split: sum.splits option.splits if_splits)

lemma episode_errors_spec:
  "lookup_returns eng v \<Longrightarrow>
   episode_errors v (found eng (Episode_row st) v) =
     (if v = JNull then [''Episode ID is required''] else [])
     @ (if v \<noteq> JNull \<and> \<not> names_row eng (map Episode_id (episodes st)) v
        then [''Episode not found''] else [])"
  using found_names_row_episode [of eng v st]
  by (simp add: episode_errors_def)

lemma guest_errors_spec:
  "lookup_returns eng v \<Longrightarrow>
   guest_errors v (found eng (Guest_row st) v) =
     (if v = JNull then [''Guest ID is required''] else [])
     @ (if v \<noteq> JNull \<and> \<not> names_row eng (map Guest_id (guests st)) v
        then [''Guest not found''] else [])"
  using found_names_row_guest [of eng v st]
  by (simp add: guest_errors_def)

lemma collected_errors_spec:
  assumes "\<not> json_boolean (dict_get d ''rating'')"
    and "lookup_returns eng (dict_get d ''episode_id'')"
    and "lookup_returns eng (dict_get d ''guest_id'')"
  shows "rating_errors (dict_get d ''rating'')
           @ episode_errors (dict_get d ''episode_id'')
               (found eng (Episode_row st) (dict_get d ''episode_id''))
           @ guest_errors (dict_get d ''guest_id'')
               (found eng (Guest_row st) (dict_get d ''guest_id''))
         = spec_errors eng st (JDict d)"
  unfolding spec_errors_def Let_def request_field.simps
  by (simp only: rating_errors_spec [OF assms(1)] episode_errors_spec [OF assms(2)]
      guest_errors_spec [OF assms(3)] append_assoc)

subsection \<open>The creation branch\<close>

lemma Appearance_out_of_range:
  "rating < 1 \<or> 5 < rating \<Longrightarrow>
   Appearance rating guest_id episode_id =
     Inl (ValueError ''Rating must be between 1 and 5 (inclusive)'')"
  by (auto simp: Appearance_def validate_rating_def)

lemma Appearance_Inr:
  "Appearance rating guest_id episode_id = Inr a \<Longrightarrow>
   1 \<le> rating \<and> rating \<le> 5
   \<and> a = \<lparr>new_rating = rating, new_guest_id = guest_id, new_episode_id = episode_id\<rparr>"
  by (auto simp: Appearance_def validate_rating_def split: if_splits)

lemma session_add_commit_Inr:
  "session_add_commit eng st a = Inr (a', st') \<Longrightarrow>
   st' = st\<lparr>appearances := insort_key Appearance_id a' (appearances st)\<rparr>
   \<and> Appearance_rating a' = new_rating a
   \<and> next_rowid eng (map Appearance_id (appearances st)) = Inr (Appearance_id a')"
  by (auto simp: session_add_commit_def bind_int_def Let_def split: sum.splits if_splits)

lemma Appearance_to_dict_no_errors:
  "Appearance_to_dict st True True a = Inr d \<Longrightarrow> json_key d ''errors'' = None"
  by (auto simp: Appearance_to_dict_def Appearance_columns_def Let_def
      split: option.splits)

text \<open>
  Whatever its arguments and the engine, the creation branch ends in one of three ways:
  a fault with nothing written, a fault after the row was written, or 201 with the row
  written; a written row has a rating within bounds.
\<close>

lemma persist_cases:
  "(\<exists>x. persist eng st rating guest_id episode_id = (Inl x, st))
   \<or> (\<exists>a. 1 \<le> Appearance_rating a \<and> Appearance_rating a \<le> 5
        \<and> ((\<exists>x. persist eng st rating guest_id episode_id
                    = (Inl x, st\<lparr>appearances := insort_key Appearance_id a (appearances st)\<rparr>))
          \<or> (\<exists>b. persist eng st rating guest_id episode_id
                    = (Inr (Response 201 b), st\<lparr>appearances := insort_key Appearance_id a (appearances st)\<rparr>)
                 \<and> json_key b ''errors'' = None)))"
proof (cases "Appearance (int_value rating) guest_id episode_id")
  case (Inl x)
  then show ?thesis
    by (simp add: persist_def)
next
  case new: (Inr n)
  show ?thesis
  proof (cases "session_add_commit eng st n")
    case (Inl x)
    then show ?thesis
      by (simp add: persist_def new)
  next
    case (Inr p)
    obtain a st' where p: "p = (a, st')"
      by (cases p)
    from Inr p session_add_commit_Inr [of eng st n a st'] Appearance_Inr [OF new]
    have st': "st' = st\<lparr>appearances := insort_key Appearance_id a (appearances st)\<rparr>"
      and rating: "1 \<le> Appearance_rating a \<and> Appearance_rating a \<le> 5"
      by simp_all
    show ?thesis
    proof (cases "Appearance_to_dict st' True True a")
      case (Inl x)
      then have "persist eng st rating guest_id episode_id
                   = (Inl x, st\<lparr>appearances := insort_key Appearance_id a (appearances st)\<rparr>)"
        by (simp add: persist_def new Inr p st')
      with rating show ?thesis
        by blast
    next
      case d: (Inr b)
      then have "persist eng st rating guest_id episode_id
                   = (Inr (Response 201 b), st\<lparr>appearances := insort_key Appearance_id a (appearances st)\<rparr>)"
        by (simp add: persist_def new Inr p st')
      moreover have "json_key b ''errors'' = None"
        using d by (rule Appearance_to_dict_no_errors)
      ultimately show ?thesis
        using rating by blast
    qed
  qed
qed

text \<open>
  C1, as the view has it. For a request whose body is an object, whose rating is not a
  JSON boolean, and whose two id lookups do not fault (each id is absent or \<^verbatim>\<open>null\<close>, or
  an integer or boolean within the signed 64-bit range, or a value of another JSON type
  that the engine reads without raising): when any violation applies, the answer is one
  400 response whose \<^verbatim>\<open>errors\<close> list is exactly the messages of all applicable
  violations, in order, and the store is unchanged. When none applies, no error list is
  produced: the view ends in a fault of the storage layer, or answers 201 without an
  \<^verbatim>\<open>errors\<close> key after exactly one appearance row was added. So an error list and a
  persisted appearance never occur together.
\<close>

theorem create_appearance_validation:
  assumes "\<not> json_boolean (dict_get d ''rating'')"
    and "lookup_returns eng (dict_get d ''episode_id'')"
    and "lookup_returns eng (dict_get d ''guest_id'')"
  shows "(spec_errors eng st (JDict d) \<noteq> [] \<longrightarrow>
            create_appearance eng st (JDict d) =
              (Inr (Response 400
                 (JDict [(''errors'', JList (map JStr (spec_errors eng st (JDict d))))])), st))
       \<and> (spec_errors eng st (JDict d) = [] \<longrightarrow>
            (\<exists>x. create_appearance eng st (JDict d) = (Inl x, st))
          \<or> (\<exists>x a. create_appearance eng st (JDict d)
                     = (Inl x, st\<lparr>appearances := insort_key Appearance_id a (appearances st)\<rparr>))
          \<or> (\<exists>a b. create_appearance eng st (JDict d)
                     = (Inr (Response 201 b), st\<lparr>appearances := insort_key Appearance_id a (appearances st)\<rparr>)
                 \<and> json_key b ''errors'' = None))"
proof (intro conjI impI)
  assume "spec_errors eng st (JDict d) \<noteq> []"
  then show "create_appearance eng st (JDict d) =
      (Inr (Response 400
         (JDict [(''errors'', JList (map JStr (spec_errors eng st (JDict d))))])), st)"
    unfolding create_appearance_typed [OF assms(2,3)] Let_def collected_errors_spec [OF assms]
    by simp
next
  assume "spec_errors eng st (JDict d) = []"
  then have run: "create_appearance eng st (JDict d)
      = persist eng st (dict_get d ''rating'') (dict_get d ''guest_id'')
          (dict_get d ''episode_id'')"
    unfolding create_appearance_typed [OF assms(2,3)] Let_def collected_errors_spec [OF assms]
    by simp
  show "(\<exists>x. create_appearance eng st (JDict d) = (Inl x, st))
          \<or> (\<exists>x a. create_appearance eng st (JDict d)
                     = (Inl x, st\<lparr>appearances := insort_key Appearance_id a (appearances st)\<rparr>))
          \<or> (\<exists>a b. create_appearance eng st (JDict d)
                     = (Inr (Response 201 b), st\<lparr>appearances := insort_key Appearance_id a (appearances st)\<rparr>)
                 \<and> json_key b ''errors'' = None)"
    unfolding run
    using persist_cases [of eng st "dict_get d ''rating''" "dict_get d ''guest_id''"
        "dict_get d ''episode_id''"]
    by blast
qed

text \<open>
  On the small store: a request with an out-of-range rating, an unknown episode and no
  guest gets all three messages at once and writes nothing; so does one whose episode id
  is a string that the engine reads as the key of no row; a valid request produces no
  error list.
\<close>

theorem create_appearance_validation_witness:
  "create_appearance strict_engine demo_store
     (JDict [(''rating'', JInt 0), (''episode_id'', JInt 9999)]) =
     (Inr (Response 400 (JDict [(''errors'',
        JList [JStr ''Rating must be between 1 and 5 (inclusive)'',
               JStr ''Episode not found'', JStr ''Guest ID is required''])])), demo_store)
   \<and> create_appearance lenient_engine demo_store
     (JDict [(''rating'', JStr ''5''), (''episode_id'', JStr ''abc''), (''guest_id'', JBool True)]) =
     (Inr (Response 400 (JDict [(''errors'',
        JList [JStr ''Rating must be an integer'', JStr ''Episode not found''])])), demo_store)
   \<and> ((\<exists>x. create_appearance strict_engine demo_store
              (JDict [(''rating'', JInt 5), (''episode_id'', JInt 2), (''guest_id'', JInt 3)])
            = (Inl x, demo_store))
      \<or> (\<exists>x a. create_appearance strict_engine demo_store
              (JDict [(''rating'', JInt 5), (''episode_id'', JInt 2), (''guest_id'', JInt 3)])
            = (Inl x, demo_store\<lparr>appearances := insort_key Appearance_id a (appearances demo_store)\<rparr>))
      \<or> (\<exists>a b. create_appearance strict_engine demo_store
              (JDict [(''rating'', JInt 5), (''episode_id'', JInt 2), (''guest_id'', JInt 3)])
            = (Inr (Response 201 b), demo_store\<lparr>appearances := insort_key Appearance_id a (appearances demo_store)\<rparr>)
          \<and> json_key b ''errors'' = None))"
proof -
  let ?bad = "[(''rating'', JInt 0), (''episode_id'', JInt 9999)]"
  let ?str = "[(''rating'', JStr ''5''), (''episode_id'', JStr ''abc''), (''guest_id'', JBool True)]"
  let ?good = "[(''rating'', JInt 5), (''episode_id'', JInt 2), (''guest_id'', JInt 3)]"
  have bad: "\<not> json_boolean (dict_get ?bad ''rating'')"
      "lookup_returns strict_engine (dict_get ?bad ''episode_id'')"
      "lookup_returns strict_engine (dict_get ?bad ''guest_id'')"
    by (simp_all add: dict_get_def lookup_returns_def key_of_def bind_int_def int64_def)
  have bad_errors: "spec_errors strict_engine demo_store (JDict ?bad) =
      [''Rating must be between 1 and 5 (inclusive)'', ''Episode not found'',
       ''Guest ID is required'']"
    by (simp add: spec_errors_def names_row_def dict_get_def demo_store_def)
  have str: "\<not> json_boolean (dict_get ?str ''rating'')"
      "lookup_returns lenient_engine (dict_get ?str ''episode_id'')"
      "lookup_returns lenient_engine (dict_get ?str ''guest_id'')"
    by (simp_all add: dict_get_def lookup_returns_def key_of_def bind_int_def int64_def
        lenient_engine_def)
  have str_errors: "spec_errors lenient_engine demo_store (JDict ?str) =
      [''Rating must be an integer'', ''Episode not found'']"
    by (simp add: spec_errors_def names_row_def dict_get_def demo_store_def lenient_engine_def)
  have good: "\<not> json_boolean (dict_get ?good ''rating'')"
      "lookup_returns strict_engine (dict_get ?good ''episode_id'')"
      "lookup_returns strict_engine (dict_get ?good ''guest_id'')"
    by (simp_all add: dict_get_def lookup_returns_def key_of_def bind_int_def int64_def)
  have good_errors: "spec_errors strict_engine demo_store (JDict ?good) = []"
    by (simp add: spec_errors_def names_row_def dict_get_def demo_store_def)
  note at_bad = create_appearance_validation [OF bad, of demo_store]
  note at_str = create_appearance_validation [OF str, of demo_store]
  note at_good = create_appearance_validation [OF good, of demo_store]
  from at_bad have first: "create_appearance strict_engine demo_store (JDict ?bad) =
     (Inr (Response 400 (JDict [(''errors'',
        JList [JStr ''Rating must be between 1 and 5 (inclusive)'',
               JStr ''Episode not found'', JStr ''Guest ID is required''])])), demo_store)"
    by (simp add: bad_errors)
  from at_str have second: "create_appearance lenient_engine demo_store (JDict ?str) =
     (Inr (Response 400 (JDict [(''errors'',
        JList [JStr ''Rating must be an integer'', JStr ''Episode not found''])])), demo_store)"
    by (simp add: str_errors)
  from at_good good_errors have third:
    "(\<exists>x. create_appearance strict_engine demo_store (JDict ?good) = (Inl x, demo_store))
      \<or> (\<exists>x a. create_appearance strict_engine demo_store (JDict ?good)
            = (Inl x, demo_store\<lparr>appearances := insort_key Appearance_id a (appearances demo_store)\<rparr>))
      \<or> (\<exists>a b. create_appearance strict_engine demo_store (JDict ?good)
            = (Inr (Response 201 b), demo_store\<lparr>appearances := insort_key Appearance_id a (appearances demo_store)\<rparr>)
          \<and> json_key b ''errors'' = None)"
    by blast
  from first second third show ?thesis
    by blast
qed

text \<open>
  C1 as stated, for every request, fails in two places. Where the body is not an object:
  with the body \<^verbatim>\<open>null\<close> all three fields are missing, yet the view ends in
  \<^verbatim>\<open>AttributeError\<close>, not in a 400 response listing the three messages. And where a
  lookup faults: 9223372036854775808 is the id of no episode, yet the view ends in
  \<^verbatim>\<open>OverflowError\<close>, not in a 400 response with \<^verbatim>\<open>Episode not found\<close>.
\<close>

theorem create_appearance_validation_counterexample:
  "spec_errors strict_engine demo_store JNull =
     [''Rating is required'', ''Episode ID is required'', ''Guest ID is required'']
   \<and> create_appearance strict_engine demo_store JNull = (Inl AttributeError, demo_store)
   \<and> spec_errors strict_engine demo_store
       (JDict [(''rating'', JInt 5), (''episode_id'', JInt 9223372036854775808),
               (''guest_id'', JInt 3)]) = [''Episode not found'']
   \<and> create_appearance strict_engine demo_store
       (JDict [(''rating'', JInt 5), (''episode_id'', JInt 9223372036854775808),
               (''guest_id'', JInt 3)]) = (Inl OverflowError, demo_store)"
  by (simp add: spec_errors_def names_row_def create_appearance_def dict_get_def
      query_get_def key_of_def bind_int_def int64_def demo_store_def)

subsection \<open>The key of the new row\<close>

lemma fold_max_Max: "fold max rest i = Max (set (i # rest))"
  by (rule Max.set_eq_fold [symmetric])

text \<open>
  The engine gives a new row a rowid that no row of the table has, or, only when the
  table already holds the largest 64-bit rowid, may fail to find one.
\<close>

lemma next_rowid_cases:
  "(\<exists>i. next_rowid eng ids = Inr i \<and> i \<notin> set ids)
   \<or> (next_rowid eng ids = Inl OperationalError
        \<and> (\<exists>k\<in>set ids. 9223372036854775807 \<le> k))"
proof (cases ids)
  case Nil
  then show ?thesis
    by (simp add: next_rowid_def)
next
  case (Cons i rest)
  let ?m = "fold max rest i"
  have mem: "?m \<in> set ids" and ub: "\<And>k. k \<in> set ids \<Longrightarrow> k \<le> ?m"
    unfolding fold_max_Max Cons by (rule Max_in, simp, simp) (rule Max_ge, simp, simp)
  show ?thesis
  proof (cases "?m < 9223372036854775807")
    case True
    have "?m + 1 \<notin> set ids"
      using ub [of "?m + 1"] by auto
    with True show ?thesis
      by (simp add: next_rowid_def Cons Let_def)
  next
    case False
    then have "9223372036854775807 \<le> ?m"
      by simp
    with mem have "\<exists>k\<in>set ids. 9223372036854775807 \<le> k"
      by (rule_tac x = "?m" in bexI)
    with False show ?thesis
      by (auto simp add: next_rowid_def Cons Let_def split: option.splits)
  qed
qed

text \<open>
  C3. A request whose rating is an integer between 1 and 5 and whose \<^verbatim>\<open>episode_id\<close> and
  \<^verbatim>\<open>guest_id\<close> are integers for which the lookups return the rows \<open>ep\<close> and \<open>gu\<close>
  adds exactly one appearance row, at its place in key order, with a key that no row of
  the table had and the three requested columns, and changes nothing else; the answer is 201 with that row's
  columns, the guest nested as \<^verbatim>\<open>{id, name, occupation}\<close> of \<open>gu\<close> and the episode nested
  as \<^verbatim>\<open>{id, date, number}\<close> of \<open>ep\<close>, neither with an \<^verbatim>\<open>appearances\<close> key. The one
  exception is the engine's: when the table already holds the largest 64-bit rowid and
  the engine finds no free one, the INSERT fails and nothing is written.
\<close>

theorem create_appearance_created:
  assumes "dict_get d ''rating'' = JInt r" and "1 \<le> r" and "r \<le> 5"
    and "dict_get d ''episode_id'' = JInt e" and "Episode_query_get st e = Inr (Some ep)"
    and "dict_get d ''guest_id'' = JInt g" and "Guest_query_get st g = Inr (Some gu)"
  shows "(\<exists>i. i \<notin> set (map Appearance_id (appearances st))
            \<and> create_appearance eng st (JDict d) =
                (Inr (Response 201 (JDict
                   [(''id'', JInt i), (''rating'', JInt r),
                    (''guest_id'', JInt g), (''episode_id'', JInt e),
                    (''guest'', JDict [(''id'', JInt g), (''name'', JStr (Guest_name gu)),
                                       (''occupation'', JStr (Guest_occupation gu))]),
                    (''episode'', JDict [(''id'', JInt e), (''date'', JStr (Episode_date ep)),
                                         (''number'', JInt (Episode_number ep))])])),
                 st\<lparr>appearances := insort_key Appearance_id
                   \<lparr>Appearance_id = i, Appearance_rating = r,
                     Appearance_guest_id = g, Appearance_episode_id = e\<rparr>
                   (appearances st)\<rparr>))
       \<or> ((\<exists>a\<in>set (appearances st). 9223372036854775807 \<le> Appearance_id a)
            \<and> create_appearance eng st (JDict d) = (Inl OperationalError, st))"
proof -
  from assms(5) have e: "int64 e" "Episode_row st e = Some ep"
    using Episode_query_get_found by blast+
  from assms(7) have g: "int64 g" "Guest_row st g = Some gu"
    using Guest_query_get_found by blast+
  have ids: "Episode_id ep = e" "Guest_id gu = g"
    using e g Episode_row_Some [of st e ep] Guest_row_Some [of st g gu] by simp_all
  have r: "int64 r"
    using assms(2,3) by (simp add: int64_def)
  have run: "create_appearance eng st (JDict d) = persist eng st (JInt r) (JInt g) (JInt e)"
    using assms
    by (simp add: create_appearance_persist query_get_JInt_episode query_get_JInt_guest
        rating_errors_def episode_errors_def guest_errors_def Let_def)
  from next_rowid_cases [of eng "map Appearance_id (appearances st)"]
  show ?thesis
  proof
    assume "\<exists>i. next_rowid eng (map Appearance_id (appearances st)) = Inr i
              \<and> i \<notin> set (map Appearance_id (appearances st))"
    then obtain i where i: "next_rowid eng (map Appearance_id (appearances st)) = Inr i"
      and fresh: "i \<notin> set (map Appearance_id (appearances st))"
      by blast
    have "persist eng st (JInt r) (JInt g) (JInt e) =
        (Inr (Response 201 (JDict
           [(''id'', JInt i), (''rating'', JInt r),
            (''guest_id'', JInt g), (''episode_id'', JInt e),
            (''guest'', JDict [(''id'', JInt g), (''name'', JStr (Guest_name gu)),
                               (''occupation'', JStr (Guest_occupation gu))]),
            (''episode'', JDict [(''id'', JInt e), (''date'', JStr (Episode_date ep)),
                                 (''number'', JInt (Episode_number ep))])])),
         st\<lparr>appearances := insort_key Appearance_id
           \<lparr>Appearance_id = i, Appearance_rating = r,
             Appearance_guest_id = g, Appearance_episode_id = e\<rparr>
           (appearances st)\<rparr>)"
      using assms(2,3) e g r i
      by (simp add: persist_def Appearance_def validate_rating_def session_add_commit_def
          bind_column_def bind_int_def Let_def Appearance_to_dict_def Appearance_columns_def
          Guest_columns_def Episode_columns_def ids)
    with fresh run show ?thesis
      by auto
  next
    assume full: "next_rowid eng (map Appearance_id (appearances st)) = Inl OperationalError
        \<and> (\<exists>k\<in>set (map Appearance_id (appearances st)). 9223372036854775807 \<le> k)"
    then have "persist eng st (JInt r) (JInt g) (JInt e) = (Inl OperationalError, st)"
      using assms(2,3) e g r
      by (simp add: persist_def Appearance_def validate_rating_def session_add_commit_def
          bind_column_def bind_int_def)
    moreover from full have "\<exists>a\<in>set (appearances st). 9223372036854775807 \<le> Appearance_id a"
      by auto
    ultimately show ?thesis
      using run by simp
  qed
qed

text \<open>
  The specification's example request, rating 5 for guest 3 on episode 2, on the small
  store, whose appearance keys are 1, 2 and 3: the new row gets a key that is none of
  them.
\<close>

theorem create_appearance_created_witness:
  "\<exists>i. i \<notin> set (map Appearance_id (appearances demo_store))
     \<and> create_appearance strict_engine demo_store
         (JDict [(''rating'', JInt 5), (''episode_id'', JInt 2), (''guest_id'', JInt 3)]) =
         (Inr (Response 201 (JDict
            [(''id'', JInt i), (''rating'', JInt 5), (''guest_id'', JInt 3),
             (''episode_id'', JInt 2),
             (''guest'', JDict [(''id'', JInt 3), (''name'', JStr ''Bradley Whitford''),
                                (''occupation'', JStr ''actor'')]),
             (''episode'', JDict [(''id'', JInt 2), (''date'', JStr ''1/11/99''),
                                  (''number'', JInt 1)])])),
          demo_store\<lparr>appearances := insort_key Appearance_id
            \<lparr>Appearance_id = i, Appearance_rating = 5,
              Appearance_guest_id = 3, Appearance_episode_id = 2\<rparr>
            (appearances demo_store)\<rparr>)"
proof -
  let ?d = "[(''rating'', JInt 5), (''episode_id'', JInt 2), (''guest_id'', JInt 3)]"
  have fields: "dict_get ?d ''rating'' = JInt 5" "dict_get ?d ''episode_id'' = JInt 2"
      "dict_get ?d ''guest_id'' = JInt 3"
    by (simp_all add: dict_get_def)
  have rows: "Episode_query_get demo_store 2
        = Inr (Some \<lparr>Episode_id = 2, Episode_date = ''1/11/99'', Episode_number = 1\<rparr>)"
      "Guest_query_get demo_store 3
        = Inr (Some \<lparr>Guest_id = 3, Guest_name = ''Bradley Whitford'',
                      Guest_occupation = ''actor''\<rparr>)"
    by (simp_all add: Episode_query_get_def Guest_query_get_def bind_int_def int64_def
        Episode_row_def Guest_row_def demo_store_def)
  have room: "\<not> (\<exists>a\<in>set (appearances demo_store). 9223372036854775807 \<le> Appearance_id a)"
    by (simp add: demo_store_def)
  from create_appearance_created [OF fields(1) _ _ fields(2) rows(1) fields(3) rows(2),
      of strict_engine] room
  show ?thesis
    by simp
qed

subsection \<open>What the view can write\<close>

text \<open>
  Whatever the body and the engine, the view leaves the store as it was or adds one row,
  whose rating is within bounds.
\<close>

lemma create_appearance_store:
  "snd (create_appearance eng st data) = st
   \<or> (\<exists>a. 1 \<le> Appearance_rating a \<and> Appearance_rating a \<le> 5
        \<and> snd (create_appearance eng st data) = st\<lparr>appearances := insort_key Appearance_id a (appearances st)\<rparr>)"
proof (cases data)
  case (JDict d)
  let ?R = "dict_get d ''rating''" and ?E = "dict_get d ''episode_id''"
    and ?G = "dict_get d ''guest_id''"
  show ?thesis
  proof (cases "if ?E = JNull then Inr None else query_get eng (Episode_row st) ?E")
    case Inl
    then show ?thesis
      by (simp add: create_appearance_persist JDict)
  next
    case ep: (Inr episode)
    show ?thesis
    proof (cases "if ?G = JNull then Inr None else query_get eng (Guest_row st) ?G")
      case Inl
      then show ?thesis
        by (simp add: create_appearance_persist JDict ep)
    next
      case gu: (Inr guest)
      show ?thesis
      proof (cases "rating_errors ?R @ episode_errors ?E episode @ guest_errors ?G guest = []")
        case True
        then have "create_appearance eng st data = persist eng st ?R ?G ?E"
          by (simp add: create_appearance_persist JDict ep gu Let_def)
        then show ?thesis
          using persist_cases [of eng st ?R ?G ?E] by auto
      next
        case False
        then show ?thesis
          by (simp add: create_appearance_persist JDict ep gu Let_def)
      qed
    qed
  qed
qed (simp_all add: create_appearance_def)

lemma ratings_in_range_preserved:
  "ratings_in_range st \<Longrightarrow> ratings_in_range (snd (create_appearance eng st data))"
  using create_appearance_store [of eng st data]
  by (auto simp: ratings_in_range_def list_all_iff set_insort_key)

lemma rating_rejected_store:
  assumes "dict_get d ''rating'' = JInt r" and "r < 1 \<or> 5 < r"
  shows "snd (create_appearance eng st (JDict d)) = st"
proof -
  have "rating_errors (JInt r) \<noteq> []"
    using assms(2) by (auto simp: rating_errors_def)
  then show ?thesis
    unfolding create_appearance_persist Let_def
    by (simp add: assms(1) split: sum.splits)
qed

lemma rating_rejected_answer:
  assumes "dict_get d ''rating'' = JInt r" and "r < 1 \<or> 5 < r"
  shows "(\<exists>x. fst (create_appearance eng st (JDict d)) = Inl x)
     \<or> (\<exists>errors.
           fst (create_appearance eng st (JDict d)) =
             Inr (Response 400 (JDict [(''errors'', JList (map JStr errors))]))
           \<and> ''Rating must be between 1 and 5 (inclusive)'' \<in> set errors)"
proof -
  let ?E = "dict_get d ''episode_id''" and ?G = "dict_get d ''guest_id''"
  have range: "rating_errors (JInt r) = [''Rating must be between 1 and 5 (inclusive)'']"
    using assms(2) by (auto simp: rating_errors_def)
  show ?thesis
  proof (cases "if ?E = JNull then Inr None else query_get eng (Episode_row st) ?E")
    case Inl
    then show ?thesis
      by (simp add: create_appearance_persist)
  next
    case ep: (Inr episode)
    show ?thesis
    proof (cases "if ?G = JNull then Inr None else query_get eng (Guest_row st) ?G")
      case Inl
      then show ?thesis
        by (simp add: create_appearance_persist ep)
    next
      case gu: (Inr guest)
      have "fst (create_appearance eng st (JDict d)) =
          Inr (Response 400 (JDict [(''errors'', JList (map JStr
            (rating_errors (JInt r) @ episode_errors ?E episode @ guest_errors ?G guest)))]))"
        by (simp add: create_appearance_persist ep gu assms(1) range Let_def)
      moreover have "''Rating must be between 1 and 5 (inclusive)''
          \<in> set (rating_errors (JInt r) @ episode_errors ?E episode @ guest_errors ?G guest)"
        by (simp add: range)
      ultimately show ?thesis
        by blast
    qed
  qed
qed

lemma rating_rejected_400:
  assumes "dict_get d ''rating'' = JInt r" and "r < 1 \<or> 5 < r"
    and "lookup_returns eng (dict_get d ''episode_id'')"
    and "lookup_returns eng (dict_get d ''guest_id'')"
  shows "\<exists>errors.
     create_appearance eng st (JDict d) =
       (Inr (Response 400 (JDict [(''errors'', JList (map JStr errors))])), st)
     \<and> ''Rating must be between 1 and 5 (inclusive)'' \<in> set errors"
proof -
  have "rating_errors (JInt r) = [''Rating must be between 1 and 5 (inclusive)'']"
    using assms(2) by (auto simp: rating_errors_def)
  then show ?thesis
    unfolding create_appearance_typed [OF assms(3,4)] Let_def
    by (intro exI [where x = "rating_errors (JInt r)
          @ episode_errors (dict_get d ''episode_id'')
              (found eng (Episode_row st) (dict_get d ''episode_id''))
          @ guest_errors (dict_get d ''guest_id'')
              (found eng (Guest_row st) (dict_get d ''guest_id''))"])
       (simp add: assms(1))
qed

text \<open>
  C2. The rating bound is enforced when the rating is assigned: constructing an
  appearance with a rating below 1 or above 5 raises the rating-range error, before
  anything is added to the session. The view keeps every stored rating within 1 to 5: it
  maps a store whose ratings are all within bounds to such a store again, whatever the
  request. A request with an integer rating below 1 or above 5 (so 0 or 6) writes no row,
  whatever else it holds, and is never answered with anything but a 400 that has the
  rating-range message among its errors (it can still end in a fault of a lookup); where
  its id lookups do not fault, that 400 is the answer.
\<close>

theorem rating_bounds:
  "(rating < 1 \<or> 5 < rating \<longrightarrow>
      Appearance rating guest_id episode_id =
        Inl (ValueError ''Rating must be between 1 and 5 (inclusive)''))
   \<and> (ratings_in_range st \<longrightarrow> ratings_in_range (snd (create_appearance eng st data)))
   \<and> (dict_get d ''rating'' = JInt r \<and> (r < 1 \<or> 5 < r) \<longrightarrow>
        snd (create_appearance eng st (JDict d)) = st)
   \<and> (dict_get d ''rating'' = JInt r \<and> (r < 1 \<or> 5 < r) \<longrightarrow>
        (\<exists>x. fst (create_appearance eng st (JDict d)) = Inl x)
        \<or> (\<exists>errors.
              fst (create_appearance eng st (JDict d)) =
                Inr (Response 400 (JDict [(''errors'', JList (map JStr errors))]))
              \<and> ''Rating must be between 1 and 5 (inclusive)'' \<in> set errors))
   \<and> (dict_get d ''rating'' = JInt r \<and> (r < 1 \<or> 5 < r)
        \<and> lookup_returns eng (dict_get d ''episode_id'')
        \<and> lookup_returns eng (dict_get d ''guest_id'') \<longrightarrow>
        (\<exists>errors.
           create_appearance eng st (JDict d) =
             (Inr (Response 400 (JDict [(''errors'', JList (map JStr errors))])), st)
           \<and> ''Rating must be between 1 and 5 (inclusive)'' \<in> set errors))"
  using Appearance_out_of_range [of rating guest_id episode_id]
    ratings_in_range_preserved [of st eng data]
    rating_rejected_store [of d r eng st]
    rating_rejected_answer [of d r eng st]
    rating_rejected_400 [of d r eng st]
  by blast

text \<open>
  On the small store, whose ratings are 4, 5 and 3: ratings 0 and 6 are refused by the
  constructor and by the view, which writes nothing; after a valid request the ratings
  are still within bounds.
\<close>

theorem rating_bounds_witness:
  "Appearance 0 (JInt 3) (JInt 2)
     = Inl (ValueError ''Rating must be between 1 and 5 (inclusive)'')
   \<and> Appearance 6 (JInt 3) (JInt 2)
     = Inl (ValueError ''Rating must be between 1 and 5 (inclusive)'')
   \<and> ratings_in_range (snd (create_appearance strict_engine demo_store
        (JDict [(''rating'', JInt 5), (''episode_id'', JInt 2), (''guest_id'', JInt 3)])))
   \<and> snd (create_appearance strict_engine demo_store
        (JDict [(''rating'', JInt 0), (''episode_id'', JInt 2), (''guest_id'', JInt 3)]))
       = demo_store
   \<and> (\<exists>errors.
        create_appearance strict_engine demo_store
          (JDict [(''rating'', JInt 6), (''episode_id'', JInt 2), (''guest_id'', JInt 3)]) =
          (Inr (Response 400 (JDict [(''errors'', JList (map JStr errors))])), demo_store)
        \<and> ''Rating must be between 1 and 5 (inclusive)'' \<in> set errors)"
proof -
  let ?zero = "[(''rating'', JInt 0), (''episode_id'', JInt 2), (''guest_id'', JInt 3)]"
  let ?six = "[(''rating'', JInt 6), (''episode_id'', JInt 2), (''guest_id'', JInt 3)]"
  have start: "ratings_in_range demo_store"
    by (simp add: ratings_in_range_def demo_store_def)
  have zero: "dict_get ?zero ''rating'' = JInt 0 \<and> ((0::int) < 1 \<or> 5 < (0::int))"
    by (simp add: dict_get_def)
  have six: "dict_get ?six ''rating'' = JInt 6 \<and> ((6::int) < 1 \<or> 5 < (6::int))
      \<and> lookup_returns strict_engine (dict_get ?six ''episode_id'')
      \<and> lookup_returns strict_engine (dict_get ?six ''guest_id'')"
    by (simp add: dict_get_def lookup_returns_def key_of_def bind_int_def int64_def)
  note at_zero = rating_bounds [where rating = 0 and guest_id = "JInt 3"
      and episode_id = "JInt 2"
      and st = demo_store and eng = strict_engine and d = ?zero and r = 0
      and data = "JDict [(''rating'', JInt 5), (''episode_id'', JInt 2), (''guest_id'', JInt 3)]"]
  note at_six = rating_bounds [where rating = 6 and guest_id = "JInt 3"
      and episode_id = "JInt 2"
      and st = demo_store and eng = strict_engine and d = ?six and r = 6
      and data = JNull]
  show ?thesis
    using at_zero at_six start zero six
    by (intro conjI) (blast | simp)+
qed

subsection \<open>A boolean rating\<close>

text \<open>
  C7, at a request whose rating is the JSON boolean \<^verbatim>\<open>true\<close>. \<^verbatim>\<open>isinstance(True, int)\<close>
  holds and \<^verbatim>\<open>True\<close> compares as 1, so no rating message is recorded; with existing ids
  the view answers 201 and stores the appearance, with rating 1.
\<close>

theorem create_appearance_boolean_rating:
  "rating_errors (JBool True) = []
   \<and> create_appearance strict_engine demo_store
       (JDict [(''rating'', JBool True), (''episode_id'', JInt 2), (''guest_id'', JInt 3)]) =
       (Inr (Response 201 (JDict
          [(''id'', JInt 4), (''rating'', JInt 1), (''guest_id'', JInt 3),
           (''episode_id'', JInt 2),
           (''guest'', JDict [(''id'', JInt 3), (''name'', JStr ''Bradley Whitford''),
                              (''occupation'', JStr ''actor'')]),
           (''episode'', JDict [(''id'', JInt 2), (''date'', JStr ''1/11/99''),
                                (''number'', JInt 1)])])),
        demo_store\<lparr>appearances := appearances demo_store @
          [\<lparr>Appearance_id = 4, Appearance_rating = 1,
            Appearance_guest_id = 3, Appearance_episode_id = 2\<rparr>]\<rparr>)"
proof -
  let ?d = "[(''rating'', JBool True), (''episode_id'', JInt 2), (''guest_id'', JInt 3)]"
  have fields: "dict_get ?d ''rating'' = JBool True" "dict_get ?d ''episode_id'' = JInt 2"
      "dict_get ?d ''guest_id'' = JInt 3"
    by (simp_all add: dict_get_def)
  have rows: "Episode_query_get demo_store 2
        = Inr (Some \<lparr>Episode_id = 2, Episode_date = ''1/11/99'', Episode_number = 1\<rparr>)"
      "Guest_query_get demo_store 3
        = Inr (Some \<lparr>Guest_id = 3, Guest_name = ''Bradley Whitford'',
                      Guest_occupation = ''actor''\<rparr>)"
    by (simp_all add: Episode_query_get_def Guest_query_get_def bind_int_def int64_def
        Episode_row_def Guest_row_def demo_store_def)
  have rowid: "next_rowid strict_engine (map Appearance_id (appearances demo_store)) = Inr 4"
    by (simp add: next_rowid_def demo_store_def)
  have no_errors: "rating_errors (JBool True) = []"
    by (simp add: rating_errors_def)
  have place: "insort_key Appearance_id
        \<lparr>Appearance_id = 4, Appearance_rating = 1,
          Appearance_guest_id = 3, Appearance_episode_id = 2\<rparr> (appearances demo_store)
      = appearances demo_store @
          [\<lparr>Appearance_id = 4, Appearance_rating = 1,
            Appearance_guest_id = 3, Appearance_episode_id = 2\<rparr>]"
    by (simp add: demo_store_def)
  have saved: "session_add_commit strict_engine demo_store
        \<lparr>new_rating = 1, new_guest_id = JInt 3, new_episode_id = JInt 2\<rparr>
      = Inr (\<lparr>Appearance_id = 4, Appearance_rating = 1,
               Appearance_guest_id = 3, Appearance_episode_id = 2\<rparr>,
             demo_store\<lparr>appearances := appearances demo_store @
               [\<lparr>Appearance_id = 4, Appearance_rating = 1,
                 Appearance_guest_id = 3, Appearance_episode_id = 2\<rparr>]\<rparr>)"
    by (simp add: session_add_commit_def bind_column_def bind_int_def int64_def rowid Let_def
        place)
  have shown: "Appearance_to_dict
        (demo_store\<lparr>appearances := appearances demo_store @
               [\<lparr>Appearance_id = 4, Appearance_rating = 1,
                 Appearance_guest_id = 3, Appearance_episode_id = 2\<rparr>]\<rparr>) True True
        \<lparr>Appearance_id = 4, Appearance_rating = 1,
          Appearance_guest_id = 3, Appearance_episode_id = 2\<rparr>
      = Inr (JDict
          [(''id'', JInt 4), (''rating'', JInt 1), (''guest_id'', JInt 3),
           (''episode_id'', JInt 2),
           (''guest'', JDict [(''id'', JInt 3), (''name'', JStr ''Bradley Whitford''),
                              (''occupation'', JStr ''actor'')]),
           (''episode'', JDict [(''id'', JInt 2), (''date'', JStr ''1/11/99''),
                                (''number'', JInt 1)])])"
    by (simp add: Appearance_to_dict_def Appearance_columns_def Guest_columns_def
        Episode_columns_def Guest_row_def Episode_row_def demo_store_def)
  have "create_appearance strict_engine demo_store (JDict ?d) =
      (Inr (Response 201 (JDict
          [(''id'', JInt 4), (''rating'', JInt 1), (''guest_id'', JInt 3),
           (''episode_id'', JInt 2),
           (''guest'', JDict [(''id'', JInt 3), (''name'', JStr ''Bradley Whitford''),
                              (''occupation'', JStr ''actor'')]),
           (''episode'', JDict [(''id'', JInt 2), (''date'', JStr ''1/11/99''),
                                (''number'', JInt 1)])])),
        demo_store\<lparr>appearances := appearances demo_store @
          [\<lparr>Appearance_id = 4, Appearance_rating = 1,
            Appearance_guest_id = 3, Appearance_episode_id = 2\<rparr>]\<rparr>)"
    by (simp add: create_appearance_def fields query_get_JInt_episode query_get_JInt_guest
        rows no_errors episode_errors_def guest_errors_def Appearance_def validate_rating_def
        saved shown)
  with no_errors show ?thesis
    by simp
qed

subsection \<open>A rating of another type\<close>

text \<open>
  A rating that is present and is a float, a string, an array or an object (not a Python
  int) gets the message \<^verbatim>\<open>Rating must be an integer\<close>: where the id lookups do not fault,
  the answer is 400 with that message first among the errors, and nothing is written.
\<close>

theorem create_appearance_rating_type_error:
  assumes "dict_get d ''rating'' \<noteq> JNull" and "\<not> isinstance_int (dict_get d ''rating'')"
    and "lookup_returns eng (dict_get d ''episode_id'')"
    and "lookup_returns eng (dict_get d ''guest_id'')"
  shows "\<exists>errors.
     create_appearance eng st (JDict d) =
       (Inr (Response 400
          (JDict [(''errors'', JList (map JStr (''Rating must be an integer'' # errors)))])), st)"
proof -
  have "rating_errors (dict_get d ''rating'') = [''Rating must be an integer'']"
    using assms(1,2) by (simp add: rating_errors_def)
  then show ?thesis
    unfolding create_appearance_typed [OF assms(3,4)] Let_def
    by (intro exI [where x = "episode_errors (dict_get d ''episode_id'')
              (found eng (Episode_row st) (dict_get d ''episode_id''))
          @ guest_errors (dict_get d ''guest_id'')
              (found eng (Guest_row st) (dict_get d ''guest_id''))"])
       simp
qed

theorem create_appearance_rating_type_error_witness:
  "\<exists>errors.
     create_appearance strict_engine demo_store
       (JDict [(''rating'', JStr ''5''), (''episode_id'', JInt 2), (''guest_id'', JInt 3)]) =
       (Inr (Response 400
          (JDict [(''errors'', JList (map JStr (''Rating must be an integer'' # errors)))])),
        demo_store)"
proof -
  let ?d = "[(''rating'', JStr ''5''), (''episode_id'', JInt 2), (''guest_id'', JInt 3)]"
  have "dict_get ?d ''rating'' \<noteq> JNull" "\<not> isinstance_int (dict_get ?d ''rating'')"
      "lookup_returns strict_engine (dict_get ?d ''episode_id'')"
      "lookup_returns strict_engine (dict_get ?d ''guest_id'')"
    by (simp_all add: dict_get_def lookup_returns_def key_of_def bind_int_def int64_def)
  then show ?thesis
    by (rule create_appearance_rating_type_error)
qed


end
